theory Spec2Isabelle
  imports Main
begin

section \<open>JavaScript values and objects\<close>

text \<open>
  The values that flow through \<^verbatim>\<open>src/api.ts\<close>: \<^verbatim>\<open>undefined\<close>, booleans, strings
  and numbers. Indent widths are whole numbers, so a number is modelled by its integer
  value; \<^verbatim>\<open>NaN\<close>, which \<^verbatim>\<open>parseInt\<close> can return, is a constructor of its own.
  The declared types (\<^verbatim>\<open>string | number | boolean\<close>, optional) exclude \<^verbatim>\<open>null\<close>.
\<close>

datatype jsval = JUndefined | JBool bool | JNum int | JNaN | JStr string

text \<open>
  A plain object is a finite map from property names to values. A key can be present
  and hold \<^verbatim>\<open>undefined\<close>; reading an absent key gives \<^verbatim>\<open>undefined\<close> too.
\<close>

type_synonym jsobj = "string \<rightharpoonup> jsval"

definition get :: "jsobj \<Rightarrow> string \<Rightarrow> jsval" where
  "get obj k = (case obj k of None \<Rightarrow> JUndefined | Some v \<Rightarrow> v)"

text \<open>\<^verbatim>\<open>delete obj.k\<close>\<close>

definition delete :: "jsobj \<Rightarrow> string \<Rightarrow> jsobj" where
  "delete obj k = obj(k := None)"

text \<open>\<^verbatim>\<open>ToBoolean\<close> on primitives, as \<^verbatim>\<open>if (v)\<close>, \<^verbatim>\<open>v ? a : b\<close> and \<^verbatim>\<open>!v\<close> apply it.\<close>

fun ToBoolean :: "jsval \<Rightarrow> bool" where
  "ToBoolean JUndefined = False"
| "ToBoolean (JBool b) = b"
| "ToBoolean (JNum n) = (n \<noteq> 0)"
| "ToBoolean JNaN = False"
| "ToBoolean (JStr s) = (s \<noteq> [])"

text \<open>\<^verbatim>\<open>ToBoolean\<close> of an object reference is true, whatever keys the object has.\<close>

definition ToBoolean_object :: "jsobj \<Rightarrow> bool" where
  "ToBoolean_object obj = True"

text \<open>\<^verbatim>\<open>a ?? b\<close>\<close>

definition nullish :: "jsval \<Rightarrow> jsval \<Rightarrow> jsval" where
  "nullish a b = (if a = JUndefined then b else a)"

text \<open>\<^verbatim>\<open>typeof v === 'number'\<close>\<close>

fun typeof_number :: "jsval \<Rightarrow> bool" where
  "typeof_number (JNum n) = True"
| "typeof_number JNaN = True"
| "typeof_number v = False"

subsection \<open>\<^verbatim>\<open>String(v)\<close> and \<^verbatim>\<open>parseInt(s, 10)\<close>\<close>

text \<open>
  \<^verbatim>\<open>String\<close> prints a whole number in plain decimal digits, as JavaScript does for
  every magnitude below \<open>10\<^sup>2\<^sup>1\<close>.
\<close>

definition digit_char :: "nat \<Rightarrow> char" where
  "digit_char d = char_of (48 + d)"

fun string_of_nat :: "nat \<Rightarrow> string" where
  "string_of_nat n =
     (if n < 10 then [digit_char n] else string_of_nat (n div 10) @ [digit_char (n mod 10)])"

definition string_of_int :: "int \<Rightarrow> string" where
  "string_of_int i = (if i < 0 then CHR ''-'' # string_of_nat (nat (- i)) else string_of_nat (nat i))"

fun String :: "jsval \<Rightarrow> string" where
  "String JUndefined = ''undefined''"
| "String (JBool b) = (if b then ''true'' else ''false'')"
| "String (JNum n) = string_of_int n"
| "String JNaN = ''NaN''"
| "String (JStr s) = s"

definition is_white :: "char \<Rightarrow> bool" where
  "is_white c = (of_char c \<in> {9, 10, 11, 12, 13, 32, 160 :: nat})"

definition is_digit :: "char \<Rightarrow> bool" where
  "is_digit c = (48 \<le> (of_char c :: nat) \<and> (of_char c :: nat) \<le> 57)"

fun digits_value :: "nat \<Rightarrow> string \<Rightarrow> nat" where
  "digits_value acc [] = acc"
| "digits_value acc (c # cs) = digits_value (10 * acc + (of_char c - 48)) cs"

text \<open>
  \<^verbatim>\<open>parseInt(s, 10)\<close>: leading white space is skipped, one sign is read, then the longest
  run of decimal digits; no digit at all gives \<^verbatim>\<open>NaN\<close>. The value is the exact
  integer, as JavaScript's is up to \<open>2\<^sup>5\<^sup>3\<close>.
\<close>

definition parseInt :: "string \<Rightarrow> jsval" where
  "parseInt s =
     (let t = dropWhile is_white s;
          neg = (case t of [] \<Rightarrow> False | c # _ \<Rightarrow> c = CHR ''-'');
          u = (case t of [] \<Rightarrow> [] | c # cs \<Rightarrow> if c = CHR ''-'' \<or> c = CHR ''+'' then cs else t);
          ds = takeWhile is_digit u
      in if ds = [] then JNaN
         else if neg then JNum (- int (digits_value 0 ds)) else JNum (int (digits_value 0 ds)))"

section \<open>The config merge engine\<close>

text \<open>
  \<^verbatim>\<open>fromEditorConfig(config, defaults)\<close>, with both arguments given. The object literal
  creates both keys; the two \<^verbatim>\<open>delete\<close>s remove them again.
\<close>

definition fromEditorConfig :: "jsobj \<Rightarrow> jsobj \<Rightarrow> jsobj" where
  "fromEditorConfig config defaults =
     (let resolved =
            [''tabSize'' \<mapsto>
               nullish (if get config ''indent_style'' = JStr ''tab''
                        then nullish (get config ''tab_width'') (get config ''indent_size'')
                        else get config ''tab_width'')
                       (get defaults ''tabSize''),
             ''indentSize'' \<mapsto>
               nullish (if get config ''indent_style'' = JStr ''tab''
                        then nullish (get config ''indent_size'') (JStr ''tabSize'')
                        else get config ''indent_size'')
                       (get defaults ''indentSize'')];
          resolved = (if get resolved ''tabSize'' = JStr ''tab''
                      then resolved(''tabSize'' \<mapsto> get config ''tab_width'') else resolved);
          resolved = (if get resolved ''indentSize'' = JStr ''tab''
                      then resolved(''indentSize'' \<mapsto> JStr ''tabSize'') else resolved);
          resolved = (if get config ''indent_style'' = JStr ''tab''
                         \<or> get config ''indent_size'' = JStr ''tab''
                         \<or> get config ''indent_style'' = JStr ''space''
                      then resolved(''insertSpaces'' \<mapsto>
                             JBool (get config ''indent_style'' = JStr ''space''))
                      else resolved);
          resolved = (if get resolved ''tabSize'' = JUndefined
                         \<or> get resolved ''tabSize'' = JStr ''unset''
                      then delete resolved ''tabSize'' else resolved);
          resolved = (if get resolved ''indentSize'' = JUndefined
                         \<or> get resolved ''indentSize'' = JStr ''unset''
                      then delete resolved ''indentSize'' else resolved)
      in resolved)"

text \<open>The inner function \<^verbatim>\<open>resolveTabSize\<close> of \<^verbatim>\<open>toEditorConfig\<close>.\<close>

definition resolveTabSize :: "jsval \<Rightarrow> jsval" where
  "resolveTabSize tabSize = (if tabSize = JStr ''auto'' then JNum 4 else parseInt (String tabSize))"

text \<open>
  \<^verbatim>\<open>toEditorConfig(options)\<close>: the \<^verbatim>\<open>switch\<close> compares with \<^verbatim>\<open>===\<close>; a value that
  matches no \<^verbatim>\<open>case\<close> leaves \<^verbatim>\<open>result\<close> as it was created.
\<close>

definition toEditorConfig :: "jsobj \<Rightarrow> jsobj" where
  "toEditorConfig options =
     (let result = Map.empty in
      if get options ''insertSpaces'' = JBool True then
        (let result = result(''indent_style'' \<mapsto> JStr ''space'') in
         if ToBoolean (get options ''tabSize'')
         then result(''indent_size'' \<mapsto> resolveTabSize (get options ''tabSize''))
         else result)
      else if get options ''insertSpaces'' = JBool False
              \<or> get options ''insertSpaces'' = JStr ''auto'' then
        (let result = result(''indent_style'' \<mapsto> JStr ''tab'') in
         if ToBoolean (get options ''tabSize'')
         then result(''tab_width'' \<mapsto> resolveTabSize (get options ''tabSize''))
         else result)
      else result)"

section \<open>The host: documents, editors, workspace and the config loader\<close>

record Uri =
  fsPath :: string

record TextDocument =
  languageId :: string
  isUntitled :: bool
  uri :: Uri
  fileName :: string

record TextEditor =
  document :: TextDocument
  "options" :: jsobj

text \<open>
  What \<^verbatim>\<open>api.ts\<close> imports from \<^verbatim>\<open>vscode\<close> and \<^verbatim>\<open>editorconfig\<close>:
  \<^item> \<^verbatim>\<open>window.activeTextEditor\<close>;
  \<^item> \<^verbatim>\<open>workspace.workspaceFolders\<close>, each folder given by its \<^verbatim>\<open>uri\<close>;
  \<^item> \<^verbatim>\<open>workspace.getConfiguration(section, scope).get(key)\<close>, \<^verbatim>\<open>undefined\<close> for a
    setting that is missing;
  \<^item> \<^verbatim>\<open>workspace.asRelativePath(file, true)\<close> and \<^verbatim>\<open>Uri.joinPath(base, name)\<close>;
  \<^item> \<^verbatim>\<open>editorconfig.parse(fileName)\<close>, awaited: \<open>Inl\<close> is the reason of a rejected
    promise, \<open>Inr\<close> the parsed properties.
\<close>

record Host =
  activeTextEditor :: "TextEditor option"
  workspaceFolders :: "Uri list option"
  getConfiguration :: "string \<Rightarrow> TextDocument option \<Rightarrow> string \<Rightarrow> jsval"
  asRelativePath :: "Uri \<Rightarrow> string"
  joinPath :: "Uri \<Rightarrow> string \<Rightarrow> Uri"
  parse :: "string \<Rightarrow> string + jsobj"

text \<open>
  The optional callbacks act on the caller's own state \<open>'s\<close>; \<open>None\<close> is a callback
  that was not passed.
\<close>

record 's ResolveCallbacks =
  onBeforeResolve :: "(string \<Rightarrow> 's \<Rightarrow> 's) option"
  onEmptyConfig :: "(string \<Rightarrow> 's \<Rightarrow> 's) option"

record 's ApplyCallbacks =
  onNoActiveTextEditor :: "('s \<Rightarrow> 's) option"
  onSuccess :: "(jsobj \<Rightarrow> 's \<Rightarrow> 's) option"

record ResolvedFile =
  fileName :: "string option"
  relativePath :: "string option"

section \<open>Workspace defaults and the file resolver\<close>

definition pickWorkspaceDefaults :: "Host \<Rightarrow> TextDocument option \<Rightarrow> jsobj" where
  "pickWorkspaceDefaults host doc =
     (let workspaceConfig = getConfiguration host ''editor'' doc;
          detectIndentation = workspaceConfig ''detectIndentation''
      in if ToBoolean detectIndentation then Map.empty
         else [''tabSize'' \<mapsto> workspaceConfig ''tabSize'',
               ''indentSize'' \<mapsto> workspaceConfig ''indentSize'',
               ''insertSpaces'' \<mapsto> workspaceConfig ''insertSpaces''])"

text \<open>The inner function \<^verbatim>\<open>getFile\<close> of \<^verbatim>\<open>resolveFile\<close>.\<close>

definition getFile :: "Host \<Rightarrow> TextDocument \<Rightarrow> Uri option" where
  "getFile host doc =
     (if \<not> isUntitled doc then Some (uri doc)
      else (case workspaceFolders host of
              None \<Rightarrow> None
            | Some [] \<Rightarrow> None
            | Some (folder # _) \<Rightarrow> Some (joinPath host folder (TextDocument.fileName doc))))"

definition resolveFile :: "Host \<Rightarrow> TextDocument \<Rightarrow> ResolvedFile" where
  "resolveFile host doc =
     (if languageId doc = ''Log'' then \<lparr>fileName = None, relativePath = None\<rparr>
      else (let file = getFile host doc
            in \<lparr>fileName = map_option fsPath file,
                relativePath = map_option (asRelativePath host) file\<rparr>))"

section \<open>The resolution orchestrator\<close>

text \<open>\<^verbatim>\<open>if (s)\<close> on an optional string: \<^verbatim>\<open>undefined\<close> and \<^verbatim>\<open>''\<close> are falsy.\<close>

fun truthy_string :: "string option \<Rightarrow> string option" where
  "truthy_string None = None"
| "truthy_string (Some s) = (if s = [] then None else Some s)"

definition resolveCoreConfig ::
  "Host \<Rightarrow> TextDocument \<Rightarrow> (string \<Rightarrow> 's \<Rightarrow> 's) option \<Rightarrow> 's \<Rightarrow> 's \<times> (string + jsobj)" where
  "resolveCoreConfig host doc beforeResolve s =
     (let rf = resolveFile host doc in
      case truthy_string (ResolvedFile.fileName rf) of
        None \<Rightarrow> (s, Inr Map.empty)
      | Some path \<Rightarrow>
          (let s = (case truthy_string (relativePath rf) of
                      None \<Rightarrow> s
                    | Some rp \<Rightarrow> (case beforeResolve of None \<Rightarrow> s | Some f \<Rightarrow> f rp s))
           in case parse host path of
                Inl reason \<Rightarrow> (s, Inl reason)
              | Inr config \<Rightarrow>
                  (s, Inr (if get config ''indent_size'' = JStr ''tab''
                           then config(''indent_size'' \<mapsto> get config ''tab_width'')
                           else config))))"

definition resolveTextEditorOptions ::
  "Host \<Rightarrow> TextDocument \<Rightarrow> 's ResolveCallbacks \<Rightarrow> 's \<Rightarrow> 's \<times> (string + jsobj)" where
  "resolveTextEditorOptions host doc callbacks s =
     (case resolveCoreConfig host doc (onBeforeResolve callbacks) s of
        (s, Inl reason) \<Rightarrow> (s, Inl reason)
      | (s, Inr editorconfigSettings) \<Rightarrow>
          if ToBoolean_object editorconfigSettings
          then (s, Inr (fromEditorConfig editorconfigSettings
                          (pickWorkspaceDefaults host (Some doc))))
          else (case onEmptyConfig callbacks of
                  None \<Rightarrow> (s, Inr Map.empty)
                | Some f \<Rightarrow>
                    (case truthy_string (relativePath (resolveFile host doc)) of
                       None \<Rightarrow> (s, Inr Map.empty)
                     | Some rp \<Rightarrow> (f rp s, Inr Map.empty))))"

section \<open>The option applier\<close>

text \<open>
  \<^verbatim>\<open>applyTextEditorOptions\<close> returns nothing; the model returns what it changed: the
  caller's state, the host with the editor's options replaced, and the \<^verbatim>\<open>newOptions\<close>
  object, which the reconciliation writes to.
\<close>

definition applyTextEditorOptions ::
  "Host \<Rightarrow> jsobj \<Rightarrow> 's ApplyCallbacks \<Rightarrow> 's \<Rightarrow> 's \<times> Host \<times> jsobj" where
  "applyTextEditorOptions host newOptions callbacks s =
     (case activeTextEditor host of
        None \<Rightarrow>
          ((case onNoActiveTextEditor callbacks of None \<Rightarrow> s | Some f \<Rightarrow> f s), host, newOptions)
      | Some editor \<Rightarrow>
          (let workspaceConfig = getConfiguration host ''editor'' (Some (document editor));
               newOptions =
                 (if workspaceConfig ''indentSize'' = JStr ''tabSize''
                     \<and> get newOptions ''indentSize'' = JUndefined
                     \<and> typeof_number (get newOptions ''tabSize'')
                  then newOptions(''indentSize'' \<mapsto> get (options editor) ''indentSize'')
                  else newOptions);
               host = host\<lparr>activeTextEditor := Some (editor\<lparr>options := newOptions\<rparr>)\<rparr>;
               s = (case onSuccess callbacks of None \<Rightarrow> s | Some f \<Rightarrow> f newOptions s)
           in (s, host, newOptions)))"

section \<open>The phases of \<^verbatim>\<open>fromEditorConfig\<close>, named\<close>

text \<open>
  The two operands of the object literal, and the effect of the closing \<^verbatim>\<open>delete\<close>s on
  one field. They serve to state what \<^const>\<open>fromEditorConfig\<close> computes field by field.
\<close>

definition rawTabSize :: "jsobj \<Rightarrow> jsobj \<Rightarrow> jsval" where
  "rawTabSize config defaults =
     nullish (if get config ''indent_style'' = JStr ''tab''
              then nullish (get config ''tab_width'') (get config ''indent_size'')
              else get config ''tab_width'')
             (get defaults ''tabSize'')"

definition rawIndentSize :: "jsobj \<Rightarrow> jsobj \<Rightarrow> jsval" where
  "rawIndentSize config defaults =
     nullish (if get config ''indent_style'' = JStr ''tab''
              then nullish (get config ''indent_size'') (JStr ''tabSize'')
              else get config ''indent_size'')
             (get defaults ''indentSize'')"

definition keep :: "jsval \<Rightarrow> jsval option" where
  "keep v = (if v = JUndefined \<or> v = JStr ''unset'' then None else Some v)"

section \<open>Concrete inputs\<close>

text \<open>
  A workspace with indentation detection off and the editor settings
  \<^verbatim>\<open>tabSize: 4, indentSize: "tabSize", insertSpaces: true\<close>; a saved file in it with no
  EditorConfig properties; an output-channel document.
\<close>

definition sample_settings :: "string \<Rightarrow> jsval" where
  "sample_settings key =
     (if key = ''detectIndentation'' then JBool False
      else if key = ''tabSize'' then JNum 4
      else if key = ''indentSize'' then JStr ''tabSize''
      else if key = ''insertSpaces'' then JBool True
      else JUndefined)"

definition sample_doc :: TextDocument where
  "sample_doc = \<lparr>languageId = ''plaintext'', isUntitled = False,
                  uri = \<lparr>fsPath = ''/proj/a.txt''\<rparr>, fileName = ''/proj/a.txt''\<rparr>"

definition log_doc :: TextDocument where
  "log_doc = \<lparr>languageId = ''Log'', isUntitled = False,
               uri = \<lparr>fsPath = ''/proj/out.log''\<rparr>, fileName = ''/proj/out.log''\<rparr>"

definition sample_editor :: TextEditor where
  "sample_editor =
     \<lparr>document = sample_doc,
      options = [''tabSize'' \<mapsto> JNum 4, ''indentSize'' \<mapsto> JNum 2, ''insertSpaces'' \<mapsto> JBool True]\<rparr>"

definition sample_host :: Host where
  "sample_host =
     \<lparr>activeTextEditor = Some sample_editor,
      workspaceFolders = Some [\<lparr>fsPath = ''/proj''\<rparr>],
      getConfiguration = (\<lambda>section scope. sample_settings),
      asRelativePath = (\<lambda>u. drop 1 (fsPath u)),
      joinPath = (\<lambda>base name. \<lparr>fsPath = fsPath base @ ''/'' @ name\<rparr>),
      parse = (\<lambda>path. Inr Map.empty)\<rparr>"

text \<open>Callbacks that log their argument.\<close>

definition record_path :: "string \<Rightarrow> string list \<Rightarrow> string list" where
  "record_path rp log = log @ [rp]"

definition record_options :: "jsobj \<Rightarrow> jsobj list \<Rightarrow> jsobj list" where
  "record_options newOptions log = log @ [newOptions]"

section \<open>Properties of objects\<close>

lemma get_empty: "get Map.empty k = JUndefined"
  by (simp add: get_def)

lemma get_upd: "get (obj(k \<mapsto> v)) k' = (if k' = k then v else get obj k')"
  by (simp add: get_def)

lemma get_delete: "get (delete obj k) k' = (if k' = k then JUndefined else get obj k')"
  by (simp add: get_def delete_def)

lemmas get_simps = get_empty get_upd get_delete

section \<open>\<^verbatim>\<open>fromEditorConfig\<close>, field by field\<close>

lemma fromEditorConfig_closed:
  "fromEditorConfig config defaults =
     (\<lambda>k. if k = ''tabSize''
          then keep (if rawTabSize config defaults = JStr ''tab''
                     then get config ''tab_width'' else rawTabSize config defaults)
          else if k = ''indentSize''
          then keep (if rawIndentSize config defaults = JStr ''tab''
                     then JStr ''tabSize'' else rawIndentSize config defaults)
          else if k = ''insertSpaces''
          then (if get config ''indent_style'' = JStr ''tab''
                   \<or> get config ''indent_size'' = JStr ''tab''
                   \<or> get config ''indent_style'' = JStr ''space''
                then Some (JBool (get config ''indent_style'' = JStr ''space'')) else None)
          else None)"
proof -
  define T0 where "T0 = rawTabSize config defaults"
  define I0 where "I0 = rawIndentSize config defaults"
  define T1 where "T1 = (if T0 = JStr ''tab'' then get config ''tab_width'' else T0)"
  define I1 where "I1 = (if I0 = JStr ''tab'' then JStr ''tabSize'' else I0)"
  define P where "P = (if get config ''indent_style'' = JStr ''tab''
                   \<or> get config ''indent_size'' = JStr ''tab''
                   \<or> get config ''indent_style'' = JStr ''space''
                then Some (JBool (get config ''indent_style'' = JStr ''space'')) else None)"
  define r0 :: jsobj where "r0 = [''tabSize'' \<mapsto> T0, ''indentSize'' \<mapsto> I0]"
  define r1 where "r1 = (if get r0 ''tabSize'' = JStr ''tab''
                         then r0(''tabSize'' \<mapsto> get config ''tab_width'') else r0)"
  define r2 where "r2 = (if get r1 ''indentSize'' = JStr ''tab''
                         then r1(''indentSize'' \<mapsto> JStr ''tabSize'') else r1)"
  define r3 where "r3 = (if get config ''indent_style'' = JStr ''tab''
                            \<or> get config ''indent_size'' = JStr ''tab''
                            \<or> get config ''indent_style'' = JStr ''space''
                         then r2(''insertSpaces'' \<mapsto> JBool (get config ''indent_style'' = JStr ''space''))
                         else r2)"
  define r4 where "r4 = (if get r3 ''tabSize'' = JUndefined \<or> get r3 ''tabSize'' = JStr ''unset''
                         then delete r3 ''tabSize'' else r3)"
  define r5 where "r5 = (if get r4 ''indentSize'' = JUndefined \<or> get r4 ''indentSize'' = JStr ''unset''
                         then delete r4 ''indentSize'' else r4)"
  have code: "fromEditorConfig config defaults = r5"
    unfolding fromEditorConfig_def r5_def r4_def r3_def r2_def r1_def r0_def T0_def I0_def
      rawTabSize_def rawIndentSize_def Let_def ..
  have e1: "r1 = [''tabSize'' \<mapsto> T1, ''indentSize'' \<mapsto> I0]"
    by (rule ext) (simp add: r1_def r0_def T1_def get_simps)
  have e2: "r2 = [''tabSize'' \<mapsto> T1, ''indentSize'' \<mapsto> I1]"
    by (rule ext) (simp add: r2_def e1 I1_def get_simps)
  have e3: "r3 = (\<lambda>k. if k = ''insertSpaces'' then P else r2 k)"
    by (rule ext) (simp add: r3_def P_def e2)
  have a3: "r3 ''tabSize'' = Some T1" "r3 ''indentSize'' = Some I1"
    by (simp_all add: e3 e2)
  have g3: "get r3 ''tabSize'' = T1"
    by (simp add: a3 get_def)
  have e4: "r4 = (\<lambda>k. if k = ''tabSize'' then keep T1 else r3 k)"
    unfolding r4_def g3 by (rule ext) (simp add: keep_def delete_def a3)
  have a4: "r4 ''indentSize'' = Some I1"
    by (simp add: e4 a3)
  have g4: "get r4 ''indentSize'' = I1"
    by (simp add: a4 get_def)
  have e5: "r5 = (\<lambda>k. if k = ''indentSize'' then keep I1 else r4 k)"
    unfolding r5_def g4 by (rule ext) (simp add: keep_def delete_def a4)
  show ?thesis
    unfolding code e5 e4 e3 e2 T1_def I1_def P_def T0_def I0_def
    by (rule ext) simp
qed

section \<open>The orchestrator on the sample workspace\<close>

lemma onEmptyConfig_unused:
  "resolveTextEditorOptions host doc (callbacks\<lparr>onEmptyConfig := g\<rparr>) s
     = resolveTextEditorOptions host doc callbacks s"
  by (simp add: resolveTextEditorOptions_def ToBoolean_object_def split: prod.splits sum.splits)

lemma no_fileName:
  "truthy_string (ResolvedFile.fileName (resolveFile host doc)) = None \<Longrightarrow>
   resolveTextEditorOptions host doc callbacks s
     = (s, Inr (fromEditorConfig Map.empty (pickWorkspaceDefaults host (Some doc))))"
  by (simp add: resolveTextEditorOptions_def resolveCoreConfig_def ToBoolean_object_def Let_def)

lemma sample_defaults:
  "pickWorkspaceDefaults sample_host scope
     = [''tabSize'' \<mapsto> JNum 4, ''indentSize'' \<mapsto> JStr ''tabSize'', ''insertSpaces'' \<mapsto> JBool True]"
  by (simp add: pickWorkspaceDefaults_def sample_host_def sample_settings_def)

lemma sample_resolveFile:
  "resolveFile sample_host sample_doc = \<lparr>fileName = Some ''/proj/a.txt'', relativePath = Some ''proj/a.txt''\<rparr>"
  by (simp add: resolveFile_def getFile_def sample_host_def sample_doc_def)

lemma log_resolveFile:
  "resolveFile sample_host log_doc = \<lparr>fileName = None, relativePath = None\<rparr>"
  by (simp add: resolveFile_def log_doc_def)

lemma sample_parse: "parse sample_host path = Inr Map.empty"
  by (simp add: sample_host_def)

lemmas field_defs = rawTabSize_def rawIndentSize_def keep_def nullish_def

lemma fromEditorConfig_sample:
  "fromEditorConfig Map.empty
      [''tabSize'' \<mapsto> JNum 4, ''indentSize'' \<mapsto> JStr ''tabSize'', ''insertSpaces'' \<mapsto> JBool True]
     = [''tabSize'' \<mapsto> JNum 4, ''indentSize'' \<mapsto> JStr ''tabSize'']"
  by (rule ext) (simp add: fromEditorConfig_closed field_defs get_simps)

lemma empty_config_merged:
  assumes "truthy_string (ResolvedFile.fileName (resolveFile host doc)) = Some path"
    and "parse host path = Inr Map.empty"
  shows "snd (resolveTextEditorOptions host doc callbacks s)
           = Inr (fromEditorConfig Map.empty (pickWorkspaceDefaults host (Some doc)))"
  using assms
  by (simp add: resolveTextEditorOptions_def resolveCoreConfig_def ToBoolean_object_def
      Let_def get_empty)

section \<open>The resolution orchestrator: empty results\<close>

text \<open>
  C1. For a document whose parsed project configuration has no keys,
  \<^verbatim>\<open>resolveTextEditorOptions\<close> should call \<^verbatim>\<open>onEmptyConfig\<close> with the relative path and
  return an empty options record. The code tests \<^verbatim>\<open>if (editorconfigSettings)\<close>, which an
  empty object passes: on the sample workspace, whose loader finds no properties for
  \<^verbatim>\<open>/proj/a.txt\<close>, the callback's log stays empty and the result carries the workspace's
  \<^verbatim>\<open>tabSize\<close> and \<^verbatim>\<open>indentSize\<close>.
\<close>

theorem resolveTextEditorOptions_empty_config_evaluated:
  "resolveTextEditorOptions sample_host sample_doc
      \<lparr>onBeforeResolve = None, onEmptyConfig = Some record_path\<rparr> []
     = ([], Inr [''tabSize'' \<mapsto> JNum 4, ''indentSize'' \<mapsto> JStr ''tabSize''])"
  by (simp add: resolveTextEditorOptions_def resolveCoreConfig_def sample_resolveFile sample_parse
      ToBoolean_object_def sample_defaults fromEditorConfig_sample get_def)

text \<open>
  C2. For a document with no resolvable file name, \<^verbatim>\<open>resolveTextEditorOptions\<close> should
  return an empty options record, with nothing from the workspace defaults. No
  configuration is looked up, but the empty object that \<^verbatim>\<open>resolveCoreConfig\<close> returns is
  truthy: for a \<^verbatim>\<open>Log\<close> document on the sample workspace the result carries the
  workspace's \<^verbatim>\<open>tabSize\<close> and \<^verbatim>\<open>indentSize\<close>.
\<close>

theorem resolveTextEditorOptions_log_document_evaluated:
  "resolveTextEditorOptions sample_host log_doc
      \<lparr>onBeforeResolve = None, onEmptyConfig = None\<rparr> ()
     = ((), Inr [''tabSize'' \<mapsto> JNum 4, ''indentSize'' \<mapsto> JStr ''tabSize''])"
  by (simp add: resolveTextEditorOptions_def resolveCoreConfig_def log_resolveFile
      ToBoolean_object_def sample_defaults fromEditorConfig_sample)

section \<open>\<^verbatim>\<open>fromEditorConfig\<close>: the spacing mode\<close>

text \<open>
  C3. For every config and defaults: with \<^verbatim>\<open>indent_style == "tab"\<close> the result's
  \<^verbatim>\<open>insertSpaces\<close> is \<^verbatim>\<open>false\<close> or omitted, never \<^verbatim>\<open>true\<close>; with
  \<^verbatim>\<open>indent_style == "space"\<close> it is exactly \<^verbatim>\<open>true\<close>.
\<close>

theorem fromEditorConfig_insertSpaces_follows_indent_style:
  "(get config ''indent_style'' = JStr ''tab'' \<longrightarrow>
      (fromEditorConfig config defaults ''insertSpaces'' = Some (JBool False)
         \<or> fromEditorConfig config defaults ''insertSpaces'' = None)
      \<and> fromEditorConfig config defaults ''insertSpaces'' \<noteq> Some (JBool True))
   \<and> (get config ''indent_style'' = JStr ''space'' \<longrightarrow>
      fromEditorConfig config defaults ''insertSpaces'' = Some (JBool True))"
  by (simp add: fromEditorConfig_closed)

theorem fromEditorConfig_insertSpaces_follows_indent_style_witness:
  "get [''indent_style'' \<mapsto> JStr ''tab'', ''tab_width'' \<mapsto> JNum 8] ''indent_style'' = JStr ''tab''
   \<and> fromEditorConfig [''indent_style'' \<mapsto> JStr ''tab'', ''tab_width'' \<mapsto> JNum 8]
         [''insertSpaces'' \<mapsto> JBool True] ''insertSpaces'' \<noteq> Some (JBool True)
   \<and> get [''indent_style'' \<mapsto> JStr ''space'', ''indent_size'' \<mapsto> JNum 2] ''indent_style''
         = JStr ''space''
   \<and> fromEditorConfig [''indent_style'' \<mapsto> JStr ''space'', ''indent_size'' \<mapsto> JNum 2]
         [''insertSpaces'' \<mapsto> JBool False] ''insertSpaces'' = Some (JBool True)"
  using fromEditorConfig_insertSpaces_follows_indent_style
          [of "[''indent_style'' \<mapsto> JStr ''tab'', ''tab_width'' \<mapsto> JNum 8]"
              "[''insertSpaces'' \<mapsto> JBool True]"]
        fromEditorConfig_insertSpaces_follows_indent_style
          [of "[''indent_style'' \<mapsto> JStr ''space'', ''indent_size'' \<mapsto> JNum 2]"
              "[''insertSpaces'' \<mapsto> JBool False]"]
  by (simp add: get_simps)

lemma toEditorConfig_indent_style:
  "get (toEditorConfig opts) ''indent_style'' =
     (if get opts ''insertSpaces'' = JBool True then JStr ''space''
      else if get opts ''insertSpaces'' = JBool False \<or> get opts ''insertSpaces'' = JStr ''auto''
      then JStr ''tab'' else JUndefined)"
  by (simp add: toEditorConfig_def Let_def get_simps)

text \<open>
  C4. Round trip: for a config whose \<^verbatim>\<open>indent_style\<close> is \<^verbatim>\<open>"tab"\<close> or \<^verbatim>\<open>"space"\<close>, if
  \<^verbatim>\<open>fromEditorConfig(config, {})\<close> defines \<^verbatim>\<open>insertSpaces\<close>, then \<^verbatim>\<open>toEditorConfig\<close> of
  it has the config's \<^verbatim>\<open>indent_style\<close>.
\<close>

theorem indent_style_round_trip:
  assumes "get config ''indent_style'' = JStr ''tab'' \<or> get config ''indent_style'' = JStr ''space''"
    and "get (fromEditorConfig config Map.empty) ''insertSpaces'' \<noteq> JUndefined"
  shows "get (toEditorConfig (fromEditorConfig config Map.empty)) ''indent_style''
           = get config ''indent_style''"
proof -
  have "get (fromEditorConfig config Map.empty) ''insertSpaces''
          = JBool (get config ''indent_style'' = JStr ''space'')"
    using assms(1) by (auto simp add: fromEditorConfig_closed get_def)
  then show ?thesis
    using assms(1) by (auto simp add: toEditorConfig_indent_style)
qed

theorem indent_style_round_trip_witness:
  "get (toEditorConfig (fromEditorConfig
          [''indent_style'' \<mapsto> JStr ''tab'', ''tab_width'' \<mapsto> JNum 8] Map.empty))
       ''indent_style'' = JStr ''tab''
   \<and> get (toEditorConfig (fromEditorConfig
          [''indent_style'' \<mapsto> JStr ''space'', ''indent_size'' \<mapsto> JNum 2] Map.empty))
       ''indent_style'' = JStr ''space''"
proof -
  let ?c1 = "[''indent_style'' \<mapsto> JStr ''tab'', ''tab_width'' \<mapsto> JNum 8]"
  let ?c2 = "[''indent_style'' \<mapsto> JStr ''space'', ''indent_size'' \<mapsto> JNum 2]"
  have s1: "get ?c1 ''indent_style'' = JStr ''tab''"
    and s2: "get ?c2 ''indent_style'' = JStr ''space''"
    by (simp_all add: get_simps)
  have d1: "get (fromEditorConfig ?c1 Map.empty) ''insertSpaces'' \<noteq> JUndefined"
    by (simp add: fromEditorConfig_closed get_def)
  have d2: "get (fromEditorConfig ?c2 Map.empty) ''insertSpaces'' \<noteq> JUndefined"
    by (simp add: fromEditorConfig_closed get_def)
  show ?thesis
    using indent_style_round_trip [of ?c1, OF disjI1 [OF s1] d1]
          indent_style_round_trip [of ?c2, OF disjI2 [OF s2] d2] s1 s2
    by simp
qed

section \<open>\<^verbatim>\<open>fromEditorConfig\<close>: sizes\<close>

text \<open>
  C5. For every defaults record, \<^verbatim>\<open>fromEditorConfig({}, defaults)\<close> has exactly the fields
  \<^verbatim>\<open>tabSize = defaults.tabSize\<close> and \<^verbatim>\<open>indentSize = defaults.indentSize\<close>, a field whose
  default is \<^verbatim>\<open>undefined\<close> being omitted; \<^verbatim>\<open>insertSpaces\<close> and every other key are omitted,
  so \<^verbatim>\<open>defaults.insertSpaces\<close> never appears. A defaults record holds editor settings:
  \<^verbatim>\<open>tabSize\<close> is a number or \<^verbatim>\<open>undefined\<close>, \<^verbatim>\<open>indentSize\<close> a number, \<^verbatim>\<open>"tabSize"\<close> or
  \<^verbatim>\<open>undefined\<close>. The hypotheses ask less: that neither is one of EditorConfig's own
  strings \<^verbatim>\<open>"tab"\<close> and \<^verbatim>\<open>"unset"\<close>.
\<close>

theorem fromEditorConfig_empty_config_defaults:
  assumes "get defaults ''tabSize'' \<noteq> JStr ''tab''"
    and "get defaults ''tabSize'' \<noteq> JStr ''unset''"
    and "get defaults ''indentSize'' \<noteq> JStr ''tab''"
    and "get defaults ''indentSize'' \<noteq> JStr ''unset''"
  shows "fromEditorConfig Map.empty defaults k =
           (if (k = ''tabSize'' \<or> k = ''indentSize'') \<and> get defaults k \<noteq> JUndefined
            then Some (get defaults k) else None)"
  using assms by (simp add: fromEditorConfig_closed field_defs get_simps)

theorem fromEditorConfig_empty_config_defaults_witness:
  "fromEditorConfig Map.empty
       [''tabSize'' \<mapsto> JNum 4, ''indentSize'' \<mapsto> JStr ''tabSize'', ''insertSpaces'' \<mapsto> JBool True]
     = [''tabSize'' \<mapsto> JNum 4, ''indentSize'' \<mapsto> JStr ''tabSize'']"
proof (rule ext)
  fix k
  let ?d = "[''tabSize'' \<mapsto> JNum 4, ''indentSize'' \<mapsto> JStr ''tabSize'',
             ''insertSpaces'' \<mapsto> JBool True]"
  have h: "get ?d ''tabSize'' \<noteq> JStr ''tab''" "get ?d ''tabSize'' \<noteq> JStr ''unset''"
          "get ?d ''indentSize'' \<noteq> JStr ''tab''" "get ?d ''indentSize'' \<noteq> JStr ''unset''"
    by (simp_all add: get_simps)
  show "fromEditorConfig Map.empty ?d k
          = [''tabSize'' \<mapsto> JNum 4, ''indentSize'' \<mapsto> JStr ''tabSize''] k"
    using fromEditorConfig_empty_config_defaults [OF h, of k] by (simp add: get_simps)
qed

text \<open>
  C6. \<^verbatim>\<open>fromEditorConfig({ indent_style: "tab", indent_size: "tab", tab_width: 4 }, {})\<close>
  resolves \<^verbatim>\<open>tabSize = 4\<close> and \<^verbatim>\<open>indentSize = "tabSize"\<close>; its \<^verbatim>\<open>insertSpaces\<close> is
  \<^verbatim>\<open>false\<close>.
\<close>

theorem fromEditorConfig_tab_sentinel_example:
  "fromEditorConfig [''indent_style'' \<mapsto> JStr ''tab'', ''indent_size'' \<mapsto> JStr ''tab'',
                     ''tab_width'' \<mapsto> JNum 4] Map.empty
     = [''tabSize'' \<mapsto> JNum 4, ''indentSize'' \<mapsto> JStr ''tabSize'',
        ''insertSpaces'' \<mapsto> JBool False]"
  by (rule ext) (simp add: fromEditorConfig_closed field_defs get_simps)

text \<open>
  C10. Two defaults records that differ only in \<^verbatim>\<open>insertSpaces\<close> give the same result for
  every config, and the result's \<^verbatim>\<open>insertSpaces\<close> is the same for any two configs that agree
  on \<^verbatim>\<open>indent_style\<close> and \<^verbatim>\<open>indent_size\<close>, whatever the defaults.
\<close>

theorem fromEditorConfig_ignores_default_insertSpaces:
  assumes "delete defaults1 ''insertSpaces'' = delete defaults2 ''insertSpaces''"
    and "get config' ''indent_style'' = get config ''indent_style''"
    and "get config' ''indent_size'' = get config ''indent_size''"
  shows "fromEditorConfig config defaults1 = fromEditorConfig config defaults2
         \<and> fromEditorConfig config' defaults' ''insertSpaces''
             = fromEditorConfig config defaults1 ''insertSpaces''"
proof -
  have "get (delete defaults1 ''insertSpaces'') k = get (delete defaults2 ''insertSpaces'') k" for k
    using assms(1) by simp
  from this [of "''tabSize''"] this [of "''indentSize''"]
  have "get defaults1 ''tabSize'' = get defaults2 ''tabSize''"
       "get defaults1 ''indentSize'' = get defaults2 ''indentSize''"
    by (simp_all add: get_delete)
  then have "fromEditorConfig config defaults1 = fromEditorConfig config defaults2"
    by (simp add: fromEditorConfig_def)
  moreover have "fromEditorConfig config' defaults' ''insertSpaces''
                   = fromEditorConfig config defaults1 ''insertSpaces''"
    using assms(2,3) by (simp add: fromEditorConfig_closed)
  ultimately show ?thesis by simp
qed

theorem fromEditorConfig_ignores_default_insertSpaces_witness:
  "fromEditorConfig [''indent_size'' \<mapsto> JNum 2]
       [''tabSize'' \<mapsto> JNum 4, ''insertSpaces'' \<mapsto> JBool True]
     = fromEditorConfig [''indent_size'' \<mapsto> JNum 2]
         [''tabSize'' \<mapsto> JNum 4, ''insertSpaces'' \<mapsto> JBool False]
   \<and> fromEditorConfig [''indent_size'' \<mapsto> JNum 2, ''tab_width'' \<mapsto> JNum 8] Map.empty
         ''insertSpaces''
       = fromEditorConfig [''indent_size'' \<mapsto> JNum 2]
           [''tabSize'' \<mapsto> JNum 4, ''insertSpaces'' \<mapsto> JBool True] ''insertSpaces''"
proof -
  let ?d1 = "[''tabSize'' \<mapsto> JNum 4, ''insertSpaces'' \<mapsto> JBool True]"
  let ?d2 = "[''tabSize'' \<mapsto> JNum 4, ''insertSpaces'' \<mapsto> JBool False]"
  let ?c = "[''indent_size'' \<mapsto> JNum 2]"
  let ?c' = "[''indent_size'' \<mapsto> JNum 2, ''tab_width'' \<mapsto> JNum 8]"
  have a: "delete ?d1 ''insertSpaces'' = delete ?d2 ''insertSpaces''"
    by (simp add: delete_def)
  have b: "get ?c' ''indent_style'' = get ?c ''indent_style''"
    and c: "get ?c' ''indent_size'' = get ?c ''indent_size''"
    by (simp_all add: get_simps)
  show ?thesis
    using fromEditorConfig_ignores_default_insertSpaces [OF a b c, of Map.empty] by simp
qed

section \<open>\<^verbatim>\<open>toEditorConfig\<close>\<close>

lemma resolveTabSize_2: "resolveTabSize (JNum 2) = JNum 2"
  by code_simp

text \<open>
  C7. For every options record with \<^verbatim>\<open>insertSpaces === true\<close>, \<^verbatim>\<open>toEditorConfig\<close> sets
  \<^verbatim>\<open>indent_style = "space"\<close> and, when \<^verbatim>\<open>tabSize\<close> is truthy, \<^verbatim>\<open>indent_size\<close> to the
  normalised tab size (and nothing else); \<^verbatim>\<open>"auto"\<close> normalises to 4, so
  \<^verbatim>\<open>{ insertSpaces: true, tabSize: "auto" }\<close> gives
  \<^verbatim>\<open>{ indent_style: "space", indent_size: 4 }\<close>.
\<close>

theorem toEditorConfig_insertSpaces_true:
  assumes "get opts ''insertSpaces'' = JBool True"
  shows "toEditorConfig opts =
           (if ToBoolean (get opts ''tabSize'')
            then [''indent_style'' \<mapsto> JStr ''space'',
                  ''indent_size'' \<mapsto> resolveTabSize (get opts ''tabSize'')]
            else [''indent_style'' \<mapsto> JStr ''space''])
         \<and> resolveTabSize (JStr ''auto'') = JNum 4
         \<and> toEditorConfig [''insertSpaces'' \<mapsto> JBool True, ''tabSize'' \<mapsto> JStr ''auto'']
             = [''indent_style'' \<mapsto> JStr ''space'', ''indent_size'' \<mapsto> JNum 4]"
  using assms by (simp add: toEditorConfig_def Let_def resolveTabSize_def get_simps)

theorem toEditorConfig_insertSpaces_true_witness:
  "get [''insertSpaces'' \<mapsto> JBool True, ''tabSize'' \<mapsto> JNum 2] ''insertSpaces'' = JBool True
   \<and> toEditorConfig [''insertSpaces'' \<mapsto> JBool True, ''tabSize'' \<mapsto> JNum 2]
         = [''indent_style'' \<mapsto> JStr ''space'', ''indent_size'' \<mapsto> JNum 2]"
proof -
  have h: "get [''insertSpaces'' \<mapsto> JBool True, ''tabSize'' \<mapsto> JNum 2] ''insertSpaces''
             = JBool True"
    by (simp add: get_simps)
  show ?thesis
    using toEditorConfig_insertSpaces_true [OF h] h by (simp add: get_simps resolveTabSize_2)
qed

text \<open>
  C8. For every options record whose \<^verbatim>\<open>insertSpaces\<close> is neither \<^verbatim>\<open>true\<close>, \<^verbatim>\<open>false\<close> nor
  \<^verbatim>\<open>"auto"\<close> (absent included), \<^verbatim>\<open>toEditorConfig\<close> returns an object with no keys.
\<close>

theorem toEditorConfig_other_insertSpaces_empty:
  assumes "get opts ''insertSpaces'' \<noteq> JBool True"
    and "get opts ''insertSpaces'' \<noteq> JBool False"
    and "get opts ''insertSpaces'' \<noteq> JStr ''auto''"
  shows "toEditorConfig opts = Map.empty"
  using assms by (simp add: toEditorConfig_def)

theorem toEditorConfig_other_insertSpaces_empty_witness:
  "toEditorConfig [''insertSpaces'' \<mapsto> JUndefined] = Map.empty
   \<and> toEditorConfig [''tabSize'' \<mapsto> JNum 4] = Map.empty"
  using toEditorConfig_other_insertSpaces_empty [of "[''insertSpaces'' \<mapsto> JUndefined]"]
        toEditorConfig_other_insertSpaces_empty [of "[''tabSize'' \<mapsto> JNum 4]"]
  by (simp add: get_simps)

section \<open>The option applier: reconciliation\<close>

text \<open>
  C9. With an active editor, when the host's \<^verbatim>\<open>editor.indentSize\<close> setting is
  \<^verbatim>\<open>"tabSize"\<close>, the new options leave \<^verbatim>\<open>indentSize\<close> undefined and their \<^verbatim>\<open>tabSize\<close> is
  a number, the editor's current \<^verbatim>\<open>indentSize\<close> is copied into the new options; the
  editor's options are replaced by that reconciled object, and \<^verbatim>\<open>onSuccess\<close>, when given,
  receives it.
\<close>

theorem applyTextEditorOptions_mirror_reconciles:
  assumes "activeTextEditor host = Some editor"
    and "getConfiguration host ''editor'' (Some (document editor)) ''indentSize'' = JStr ''tabSize''"
    and "get newOptions ''indentSize'' = JUndefined"
    and "typeof_number (get newOptions ''tabSize'')"
  shows "applyTextEditorOptions host newOptions callbacks s =
           (let reconciled = newOptions(''indentSize'' \<mapsto> get (options editor) ''indentSize'')
            in ((case onSuccess callbacks of None \<Rightarrow> s | Some f \<Rightarrow> f reconciled s),
                host\<lparr>activeTextEditor := Some (editor\<lparr>options := reconciled\<rparr>)\<rparr>,
                reconciled))"
  using assms by (simp add: applyTextEditorOptions_def Let_def)

theorem applyTextEditorOptions_mirror_reconciles_witness:
  "applyTextEditorOptions sample_host [''tabSize'' \<mapsto> JNum 8]
       \<lparr>onNoActiveTextEditor = None, onSuccess = Some record_options\<rparr> []
     = ([[''tabSize'' \<mapsto> JNum 8, ''indentSize'' \<mapsto> JNum 2]],
        sample_host\<lparr>activeTextEditor :=
          Some (sample_editor\<lparr>options := [''tabSize'' \<mapsto> JNum 8, ''indentSize'' \<mapsto> JNum 2]\<rparr>)\<rparr>,
        [''tabSize'' \<mapsto> JNum 8, ''indentSize'' \<mapsto> JNum 2])"
proof -
  have a: "activeTextEditor sample_host = Some sample_editor"
    by (simp add: sample_host_def)
  have b: "getConfiguration sample_host ''editor'' (Some (document sample_editor)) ''indentSize''
             = JStr ''tabSize''"
    by (simp add: sample_host_def sample_settings_def)
  have c: "get [''tabSize'' \<mapsto> JNum 8] ''indentSize'' = JUndefined"
    by (simp add: get_simps)
  have d: "typeof_number (get [''tabSize'' \<mapsto> JNum 8] ''tabSize'')"
    by (simp add: get_simps)
  have e: "get (options sample_editor) ''indentSize'' = JNum 2"
    by (simp add: sample_editor_def get_simps)
  show ?thesis
    using applyTextEditorOptions_mirror_reconciles
            [OF a b c d, of "\<lparr>onNoActiveTextEditor = None, onSuccess = Some record_options\<rparr>" "[]"]
    by (simp add: e record_options_def Let_def)
qed

end
